theory Spec2Isabelle
  imports Main "HOL-Library.Signed_Division"
begin

section \<open>The chat room of \<^verbatim>\<open>src/server/server.go\<close>\<close>

text \<open>
  The server keeps one \<^verbatim>\<open>ChatRoom\<close>: a registry of clients, an append-only log of
  messages and the counter that numbers them. Its four RPC methods (\<^verbatim>\<open>Join\<close>,
  \<^verbatim>\<open>Send\<close>, \<^verbatim>\<open>GetUpdates\<close>, \<^verbatim>\<open>Leave\<close>) each take the room's lock for their whole
  body, so each call is one atomic transition of the room. A method is modelled as a
  function from the room, the arguments and the reply value the pointer \<^verbatim>\<open>reply\<close>
  refers to on entry, to the room, the reply and the returned \<^verbatim>\<open>error\<close> on exit.

  Modelling decisions:
  \<^item> Go's \<^verbatim>\<open>int\<close> (64 bits here) is HOL's \<open>int\<close>. The only arithmetic on it is
    \<^verbatim>\<open>cr.nextID++\<close> and \<^verbatim>\<open>cr.nextID - 1\<close>; the counter is one more than the length of
    the log slice, whose length is itself a Go \<^verbatim>\<open>int\<close>, so it cannot wrap before the
    slice has \<open>2^63 - 1\<close> elements. Comparisons of message ids are the signed comparisons
    of Go.
  \<^item> \<^verbatim>\<open>time.Time\<close> values are the readings of the clock in nanoseconds since the Unix
    epoch. Every call of \<^verbatim>\<open>time.Now()\<close> is a parameter of the method that makes it.
  \<^item> \<^verbatim>\<open>map[string]*Client\<close> is a partial map from names to clients. The pointers
    stored in it are never shared: a \<^verbatim>\<open>Client\<close> is reachable through its registry entry
    only, so the assignment through \<^verbatim>\<open>cl\<close> in \<^verbatim>\<open>Send\<close> is an update of that entry.
  \<^item> The lines printed with \<^verbatim>\<open>fmt.Printf\<close> go to the console and are left out.
\<close>

subsection \<open>Data\<close>

type_synonym Time = int

record Message =
  ID :: int
  Sender :: string
  Content :: string
  Time :: Time

record Client =
  ID :: string
  LastSeen :: int
  JoinedAt :: Time
  Original :: string

record ChatRoom =
  clients :: "string \<rightharpoonup> Client"
  logs :: "Message list"
  nextID :: int
  nameUsage :: "string \<rightharpoonup> int"

definition NewChatRoom :: ChatRoom where
  "NewChatRoom = \<lparr>clients = Map.empty, logs = [], nextID = 1, nameUsage = Map.empty\<rparr>"

record JoinArgs =
  RequestedName :: string

record JoinReply =
  Success :: bool
  AssignedName :: string
  Message :: string

record SendArgs =
  ID :: string
  Message :: string

record SendReply =
  Success :: bool

record UpdateArgs =
  ID :: string
  LastMsgID :: int

record UpdateReply =
  Messages :: "Message list"
  NewMsgID :: int

text \<open>The argument of \<^verbatim>\<open>Leave\<close> is the anonymous \<^verbatim>\<open>struct{ ID string }\<close>.\<close>

record LeaveArgs =
  ID :: string

text \<open>The errors are the values of \<^verbatim>\<open>fmt.Errorf\<close>, which carry their message.\<close>

datatype error = Errorf string

subsection \<open>Decimal formatting\<close>

text \<open>
  \<^verbatim>\<open>fmt.Sprintf\<close> with the verb \<^verbatim>\<open>%d\<close> writes an integer in decimal, with a leading
  minus sign when it is negative and no padding.
\<close>

definition digit :: "nat \<Rightarrow> char" where
  "digit d = ''0123456789'' ! d"

fun utoa :: "nat \<Rightarrow> string" where
  "utoa n = (if n < 10 then [digit n] else utoa (n div 10) @ [digit (n mod 10)])"

declare utoa.simps [simp del]

definition itoa :: "int \<Rightarrow> string" where
  "itoa i = (if i < 0 then CHR ''-'' # utoa (nat (- i)) else utoa (nat i))"

subsection \<open>Name allocation\<close>

text \<open>
  The loop \<^verbatim>\<open>for i := 1; i <= 99; i++\<close> of \<^verbatim>\<open>assignName\<close>, from the value \<open>i\<close> on:
  the first candidate \<^verbatim>\<open>Sprintf("%s%d", base, i)\<close> that is not a key of the registry, or
  \<open>None\<close> when the loop runs to its end.
\<close>

function assignName_loop :: "(string \<rightharpoonup> Client) \<Rightarrow> string \<Rightarrow> int \<Rightarrow> string option" where
  "assignName_loop cs base i =
     (if i \<le> 99 then
        (let candidate = base @ itoa i in
         if cs candidate = None then Some candidate
         else assignName_loop cs base (i + 1))
      else None)"
  by pat_completeness auto
termination
  by (relation "measure (\<lambda>(cs, base, i). nat (100 - i))") auto

declare assignName_loop.simps [simp del]

text \<open>
  \<open>now\<close> is the value of \<^verbatim>\<open>time.Now().UnixNano()\<close> that the last line reads; Go's
  \<^verbatim>\<open>%\<close> truncates towards zero, as \<open>smod\<close> does.
\<close>

definition assignName :: "ChatRoom \<Rightarrow> string \<Rightarrow> int \<Rightarrow> string" where
  "assignName cr requested now =
     (let base = (if requested = [] then ''Guest'' else requested) in
      if clients cr base = None then base
      else (case assignName_loop (clients cr) base 1 of
              Some candidate \<Rightarrow> candidate
            | None \<Rightarrow> base @ ''_'' @ itoa (now smod 9999)))"

subsection \<open>The RPC methods\<close>

definition Join ::
  "ChatRoom \<Rightarrow> JoinArgs \<Rightarrow> JoinReply \<Rightarrow> int \<Rightarrow> Time \<Rightarrow> Time \<Rightarrow> ChatRoom \<times> JoinReply \<times> error option" where
  "Join cr args reply now tJoined tSys =
     (let chosen = assignName cr (RequestedName args) now;
          cr1 = cr\<lparr>clients := (clients cr)(chosen \<mapsto>
                  \<lparr>Client.ID = chosen, LastSeen = nextID cr - 1,
                   JoinedAt = tJoined, Original = RequestedName args\<rparr>)\<rparr>;
          sys = \<lparr>Message.ID = nextID cr1, Sender = ''System'',
                 Content = ''User '' @ chosen @ '' joined the chat'', Time = tSys\<rparr>;
          cr2 = cr1\<lparr>nextID := nextID cr1 + 1\<rparr>;
          cr3 = cr2\<lparr>logs := logs cr2 @ [sys]\<rparr>
      in (cr3,
          reply\<lparr>JoinReply.Success := True, AssignedName := chosen,
                JoinReply.Message := ''Welcome! You are now '' @ chosen\<rparr>,
          None))"

definition Send ::
  "ChatRoom \<Rightarrow> SendArgs \<Rightarrow> SendReply \<Rightarrow> Time \<Rightarrow> ChatRoom \<times> SendReply \<times> error option" where
  "Send cr args reply tMsg =
     (case clients cr (SendArgs.ID args) of
        None \<Rightarrow> (cr, reply, Some (Errorf ''user not registered''))
      | Some cl \<Rightarrow>
          (let msg = \<lparr>Message.ID = nextID cr, Sender = SendArgs.ID args,
                      Content = SendArgs.Message args, Time = tMsg\<rparr>;
               cr1 = cr\<lparr>logs := logs cr @ [msg]\<rparr>;
               cr2 = cr1\<lparr>clients := (clients cr1)(SendArgs.ID args \<mapsto>
                       cl\<lparr>LastSeen := Message.ID msg\<rparr>)\<rparr>;
               cr3 = cr2\<lparr>nextID := nextID cr2 + 1\<rparr>
           in (cr3, reply\<lparr>SendReply.Success := True\<rparr>, None)))"

text \<open>
  The body of the loop \<^verbatim>\<open>for _, m := range cr.logs\<close> of \<^verbatim>\<open>GetUpdates\<close>, over the
  pair of its local variables \<^verbatim>\<open>newList\<close> and \<^verbatim>\<open>maxID\<close>. The \<^verbatim>\<open>continue\<close> of the
  no-echo test skips both assignments.
\<close>

fun GetUpdates_loop ::
  "UpdateArgs \<Rightarrow> Message list \<Rightarrow> Message list \<times> int \<Rightarrow> Message list \<times> int" where
  "GetUpdates_loop args [] (newList, maxID) = (newList, maxID)"
| "GetUpdates_loop args (m # ms) (newList, maxID) =
     (if Message.ID m > LastMsgID args then
        (if Sender m = UpdateArgs.ID args then GetUpdates_loop args ms (newList, maxID)
         else GetUpdates_loop args ms (newList @ [m], Message.ID m))
      else GetUpdates_loop args ms (newList, maxID))"

definition GetUpdates ::
  "ChatRoom \<Rightarrow> UpdateArgs \<Rightarrow> UpdateReply \<Rightarrow> ChatRoom \<times> UpdateReply \<times> error option" where
  "GetUpdates cr args reply =
     (if clients cr (UpdateArgs.ID args) = None
      then (cr, reply, Some (Errorf ''unknown client''))
      else (case GetUpdates_loop args (logs cr) ([], LastMsgID args) of
              (newList, maxID) \<Rightarrow>
                (cr, reply\<lparr>Messages := newList, NewMsgID := maxID\<rparr>, None)))"

definition Leave ::
  "ChatRoom \<Rightarrow> LeaveArgs \<Rightarrow> JoinReply \<Rightarrow> Time \<Rightarrow> ChatRoom \<times> JoinReply \<times> error option" where
  "Leave cr args reply tMsg =
     (if clients cr (LeaveArgs.ID args) = None then (cr, reply, None)
      else
        (let cr1 = cr\<lparr>clients := (clients cr)(LeaveArgs.ID args := None)\<rparr>;
             leaveMsg = \<lparr>Message.ID = nextID cr1, Sender = ''System'',
                         Content = ''User '' @ LeaveArgs.ID args @ '' left the chat'',
                         Time = tMsg\<rparr>;
             cr2 = cr1\<lparr>nextID := nextID cr1 + 1\<rparr>;
             cr3 = cr2\<lparr>logs := logs cr2 @ [leaveMsg]\<rparr>
         in (cr3,
             reply\<lparr>JoinReply.Success := True, JoinReply.Message := ''Disconnected''\<rparr>,
             None)))"

subsection \<open>Sequences of calls\<close>

text \<open>
  \<^verbatim>\<open>net/rpc\<close> hands every method a freshly allocated reply, whose fields hold the
  zero values of their types.
\<close>

definition zeroJoinReply :: JoinReply where
  "zeroJoinReply = \<lparr>JoinReply.Success = False, AssignedName = [], JoinReply.Message = []\<rparr>"

definition zeroSendReply :: SendReply where
  "zeroSendReply = \<lparr>SendReply.Success = False\<rparr>"

definition zeroUpdateReply :: UpdateReply where
  "zeroUpdateReply = \<lparr>Messages = [], NewMsgID = 0\<rparr>"

text \<open>A call as the dispatcher receives it, with the clock readings its method makes.\<close>

datatype Call =
  CallJoin JoinArgs int Time Time
| CallSend SendArgs Time
| CallGetUpdates UpdateArgs
| CallLeave LeaveArgs Time

fun serve :: "ChatRoom \<Rightarrow> Call \<Rightarrow> ChatRoom" where
  "serve cr (CallJoin args now tJoined tSys) = fst (Join cr args zeroJoinReply now tJoined tSys)"
| "serve cr (CallSend args tMsg) = fst (Send cr args zeroSendReply tMsg)"
| "serve cr (CallGetUpdates args) = fst (GetUpdates cr args zeroUpdateReply)"
| "serve cr (CallLeave args tMsg) = fst (Leave cr args zeroJoinReply tMsg)"

definition serveAll :: "Call list \<Rightarrow> ChatRoom" where
  "serveAll calls = foldl serve NewChatRoom calls"

subsection \<open>The numbering of the log\<close>

text \<open>
  The log of a room is numbered when its ids are \<open>1, 2, \<dots>\<close> in the order of the slice
  and the counter is the next number.
\<close>

definition numbered :: "ChatRoom \<Rightarrow> bool" where
  "numbered cr \<longleftrightarrow>
     map Message.ID (logs cr) = [1..int (length (logs cr))] \<and>
     nextID cr = int (length (logs cr)) + 1"

subsection \<open>Concrete runs\<close>

text \<open>Client \<open>A\<close> joins an empty room and sends one message.\<close>

definition soloCalls :: "Call list" where
  "soloCalls =
     [CallJoin \<lparr>RequestedName = ''A''\<rparr> 7 100 101,
      CallSend \<lparr>SendArgs.ID = ''A'', SendArgs.Message = ''hi''\<rparr> 200]"

text \<open>Clients \<open>A\<close> and \<open>B\<close> join, \<open>A\<close> sends, \<open>B\<close> sends, \<open>A\<close> sends again.\<close>

definition duoCalls :: "Call list" where
  "duoCalls =
     [CallJoin \<lparr>RequestedName = ''A''\<rparr> 7 100 101,
      CallJoin \<lparr>RequestedName = ''B''\<rparr> 8 110 111,
      CallSend \<lparr>SendArgs.ID = ''A'', SendArgs.Message = ''hi''\<rparr> 200,
      CallSend \<lparr>SendArgs.ID = ''B'', SendArgs.Message = ''hello''\<rparr> 300,
      CallSend \<lparr>SendArgs.ID = ''A'', SendArgs.Message = ''bye''\<rparr> 400]"

text \<open>
  A hundred joins under the name \<open>A\<close>, which take \<open>A\<close> and \<open>A1\<close> to \<open>A99\<close>, and
  then a join under the name \<open>A_5\<close>.
\<close>

definition crowdCalls :: "Call list" where
  "crowdCalls = replicate 100 (CallJoin \<lparr>RequestedName = ''A''\<rparr> 7 100 101)"

definition clashCalls :: "Call list" where
  "clashCalls = crowdCalls @ [CallJoin \<lparr>RequestedName = ''A_5''\<rparr> 8 110 111]"

text \<open>
  The run of the end-to-end scenario: a join with the empty name, a join as \<open>Guest\<close>,
  and a message of \<open>Guest\<close>.
\<close>

definition guestCalls :: "Call list" where
  "guestCalls =
     [CallJoin \<lparr>RequestedName = []\<rparr> 7 100 101,
      CallJoin \<lparr>RequestedName = ''Guest''\<rparr> 8 110 111,
      CallSend \<lparr>SendArgs.ID = ''Guest'', SendArgs.Message = ''hi''\<rparr> 200]"

text \<open>Client \<open>A\<close> joins and leaves.\<close>

definition leaveCalls :: "Call list" where
  "leaveCalls =
     [CallJoin \<lparr>RequestedName = ''A''\<rparr> 7 100 101,
      CallLeave \<lparr>LeaveArgs.ID = ''A''\<rparr> 200]"

subsection \<open>The registry is keyed by the clients' ids\<close>

definition keyed :: "ChatRoom \<Rightarrow> bool" where
  "keyed cr \<longleftrightarrow> (\<forall>name cl. clients cr name = Some cl \<longrightarrow> Client.ID cl = name)"

section \<open>Properties\<close>

subsection \<open>The loop of \<^verbatim>\<open>GetUpdates\<close>\<close>

text \<open>
  The loop appends to \<^verbatim>\<open>newList\<close> the messages that pass both tests, in the order of
  the log, and leaves in \<^verbatim>\<open>maxID\<close> the id of the last message it appended.
\<close>

lemma GetUpdates_loop_filter:
  "GetUpdates_loop args ms (newList, maxID) =
     (newList @ filter (\<lambda>m. LastMsgID args < Message.ID m \<and> Sender m \<noteq> UpdateArgs.ID args) ms,
      if filter (\<lambda>m. LastMsgID args < Message.ID m \<and> Sender m \<noteq> UpdateArgs.ID args) ms = []
      then maxID
      else Message.ID (last (filter (\<lambda>m. LastMsgID args < Message.ID m \<and> Sender m \<noteq> UpdateArgs.ID args) ms)))"
  by (induction ms arbitrary: newList maxID) simp_all

lemma GetUpdates_registered:
  assumes "clients cr (UpdateArgs.ID args) \<noteq> None"
  shows "GetUpdates cr args reply =
     (cr,
      reply\<lparr>Messages := filter (\<lambda>m. LastMsgID args < Message.ID m \<and> Sender m \<noteq> UpdateArgs.ID args) (logs cr),
            NewMsgID := (if filter (\<lambda>m. LastMsgID args < Message.ID m \<and> Sender m \<noteq> UpdateArgs.ID args) (logs cr) = []
               then LastMsgID args
               else Message.ID (last (filter (\<lambda>m. LastMsgID args < Message.ID m \<and> Sender m \<noteq> UpdateArgs.ID args) (logs cr))))\<rparr>,
      None)"
  using assms by (simp add: GetUpdates_def GetUpdates_loop_filter)

subsection \<open>Every reachable log is numbered\<close>

lemma upto_snoc: "0 \<le> n \<Longrightarrow> [1..n + 1] = [1..n] @ [n + 1]"
  by (simp add: upto_rec2)

lemma upto_strict: "sorted_wrt (<) [i..j]"
  by (simp add: sorted_wrt_iff_nth_less)

lemma numbered_append:
  assumes "numbered cr" "logs cr' = logs cr @ [m]" "Message.ID m = nextID cr"
    "nextID cr' = nextID cr + 1"
  shows "numbered cr'"
  using assms upto_snoc [of "int (length (logs cr))"] by (simp add: numbered_def add.commute)

lemma numbered_same:
  assumes "numbered cr" "logs cr' = logs cr" "nextID cr' = nextID cr"
  shows "numbered cr'"
  using assms by (simp add: numbered_def)

text \<open>A call appends nothing, or one message that carries the counter and advances it.\<close>

lemma serve_log:
  "(logs (serve cr c) = logs cr \<and> nextID (serve cr c) = nextID cr) \<or>
   (\<exists>m. logs (serve cr c) = logs cr @ [m] \<and> Message.ID m = nextID cr \<and>
        nextID (serve cr c) = nextID cr + 1)"
  by (cases c)
    (simp_all add: Join_def Send_def GetUpdates_def Leave_def Let_def
      split: option.split prod.split)

lemma numbered_serve: "numbered cr \<Longrightarrow> numbered (serve cr c)"
  using serve_log [of cr c] by (auto intro: numbered_append numbered_same)

lemma numbered_serveAll: "numbered (serveAll calls)"
proof (induction calls rule: rev_induct)
  case Nil
  show ?case by (simp add: serveAll_def numbered_def NewChatRoom_def)
next
  case (snoc c calls)
  then show ?case by (simp add: serveAll_def numbered_serve)
qed

lemma sorted_ids_serveAll: "sorted_wrt (<) (map Message.ID (logs (serveAll calls)))"
  using numbered_serveAll [of calls] by (simp add: numbered_def upto_strict)

lemma sorted_filter_ids:
  "sorted_wrt (<) (map Message.ID ms) \<Longrightarrow> sorted_wrt (<) (map Message.ID (filter P ms))"
  by (induction ms) auto

lemma last_is_Max:
  "sorted_wrt (<) (map f xs) \<Longrightarrow> xs \<noteq> [] \<Longrightarrow> (f (last xs) :: int) = Max (f ` set xs)"
proof (induction xs)
  case Nil
  then show ?case by simp
next
  case (Cons x xs)
  show ?case
  proof (cases "xs = []")
    case True
    then show ?thesis by simp
  next
    case False
    with Cons have ih: "f (last xs) = Max (f ` set xs)" by simp
    from Cons.prems have "\<forall>y\<in>set xs. f x < f y" by simp
    with False have "f x < f (last xs)" by simp
    with False ih show ?thesis by (simp add: max_def)
  qed
qed

text \<open>
  Claim C2. Starting from a new room, whose counter is 1 and whose log is empty, after
  any sequence of calls the ids of the log are exactly \<open>1, 2, \<dots>, n\<close> in append order,
  where \<open>n\<close> is the length of the log, and the counter is \<open>n + 1\<close>. So the ids are
  strictly increasing in log order and pairwise distinct, and a further call either
  leaves log and counter alone or appends exactly one message, which gets the value of
  the counter, while the counter goes up by one.
\<close>

theorem log_ids_consecutive:
  "nextID NewChatRoom = 1 \<and> logs NewChatRoom = [] \<and>
   map Message.ID (logs (serveAll calls)) = [1..int (length (logs (serveAll calls)))] \<and>
   nextID (serveAll calls) = int (length (logs (serveAll calls))) + 1 \<and>
   sorted_wrt (<) (map Message.ID (logs (serveAll calls))) \<and>
   distinct (map Message.ID (logs (serveAll calls))) \<and>
   (logs (serve (serveAll calls) c) = logs (serveAll calls) \<and>
      nextID (serve (serveAll calls) c) = nextID (serveAll calls) \<or>
    (\<exists>m. logs (serve (serveAll calls) c) = logs (serveAll calls) @ [m] \<and>
         Message.ID m = nextID (serveAll calls) \<and>
         nextID (serve (serveAll calls) c) = nextID (serveAll calls) + 1))"
proof -
  have n: "numbered (serveAll calls)" by (rule numbered_serveAll)
  have s: "sorted_wrt (<) (map Message.ID (logs (serveAll calls)))" by (rule sorted_ids_serveAll)
  have d: "distinct (map Message.ID (logs (serveAll calls)))"
    using s by (simp add: strict_sorted_iff)
  show ?thesis
    using n s d serve_log [of "serveAll calls" c]
    by (simp add: numbered_def NewChatRoom_def)
qed

subsection \<open>The concrete runs, evaluated\<close>

lemmas run_defs = serveAll_def Join_def Send_def Leave_def GetUpdates_def NewChatRoom_def
  assignName_def assignName_loop.simps itoa_def utoa.simps digit_def Let_def
  zeroJoinReply_def zeroSendReply_def zeroUpdateReply_def

lemma duo_logs:
  "logs (serveAll duoCalls) =
     [\<lparr>Message.ID = 1, Sender = ''System'', Content = ''User A joined the chat'', Time = 101\<rparr>,
      \<lparr>Message.ID = 2, Sender = ''System'', Content = ''User B joined the chat'', Time = 111\<rparr>,
      \<lparr>Message.ID = 3, Sender = ''A'', Content = ''hi'', Time = 200\<rparr>,
      \<lparr>Message.ID = 4, Sender = ''B'', Content = ''hello'', Time = 300\<rparr>,
      \<lparr>Message.ID = 5, Sender = ''A'', Content = ''bye'', Time = 400\<rparr>]"
  by (simp add: duoCalls_def run_defs)

lemma duo_clients:
  "clients (serveAll duoCalls) ''A'' \<noteq> None" "clients (serveAll duoCalls) ''B'' \<noteq> None"
  by (simp_all add: duoCalls_def run_defs)

lemma solo_logs:
  "logs (serveAll soloCalls) =
     [\<lparr>Message.ID = 1, Sender = ''System'', Content = ''User A joined the chat'', Time = 101\<rparr>,
      \<lparr>Message.ID = 2, Sender = ''A'', Content = ''hi'', Time = 200\<rparr>]"
  by (simp add: soloCalls_def run_defs)

lemma solo_clients: "clients (serveAll soloCalls) ''A'' \<noteq> None"
  by (simp add: soloCalls_def run_defs)

lemma solo_GetUpdates:
  "GetUpdates (serveAll soloCalls) \<lparr>UpdateArgs.ID = ''A'', LastMsgID = 0\<rparr> zeroUpdateReply =
     (serveAll soloCalls,
      \<lparr>Messages = [\<lparr>Message.ID = 1, Sender = ''System'', Content = ''User A joined the chat'', Time = 101\<rparr>],
       NewMsgID = 1\<rparr>, None)"
  using solo_clients by (simp add: GetUpdates_registered solo_logs zeroUpdateReply_def)

lemma solo_client_A:
  "clients (serveAll soloCalls) ''A'' =
     Some \<lparr>Client.ID = ''A'', LastSeen = 2, JoinedAt = 100, Original = ''A''\<rparr>"
  by (simp add: soloCalls_def run_defs)


lemma leave_clients: "clients (serveAll leaveCalls) ''A'' = None"
  by (simp add: leaveCalls_def run_defs)

lemma leave_logs:
  "logs (serveAll leaveCalls) =
     [\<lparr>Message.ID = 1, Sender = ''System'', Content = ''User A joined the chat'', Time = 101\<rparr>,
      \<lparr>Message.ID = 2, Sender = ''System'', Content = ''User A left the chat'', Time = 200\<rparr>]"
  by (simp add: leaveCalls_def run_defs)

lemma guest_logs:
  "logs (serveAll guestCalls) =
     [\<lparr>Message.ID = 1, Sender = ''System'', Content = ''User Guest joined the chat'', Time = 101\<rparr>,
      \<lparr>Message.ID = 2, Sender = ''System'', Content = ''User Guest1 joined the chat'', Time = 111\<rparr>,
      \<lparr>Message.ID = 3, Sender = ''Guest'', Content = ''hi'', Time = 200\<rparr>]"
  by (simp add: guestCalls_def run_defs)

lemma guest_clients: "clients (serveAll guestCalls) ''Guest1'' \<noteq> None"
  by (simp add: guestCalls_def run_defs)

lemma guest_GetUpdates:
  "GetUpdates (serveAll guestCalls) \<lparr>UpdateArgs.ID = ''Guest1'', LastMsgID = 0\<rparr> zeroUpdateReply =
     (serveAll guestCalls,
      \<lparr>Messages =
         [\<lparr>Message.ID = 1, Sender = ''System'', Content = ''User Guest joined the chat'', Time = 101\<rparr>,
          \<lparr>Message.ID = 2, Sender = ''System'', Content = ''User Guest1 joined the chat'', Time = 111\<rparr>,
          \<lparr>Message.ID = 3, Sender = ''Guest'', Content = ''hi'', Time = 200\<rparr>],
       NewMsgID = 3\<rparr>, None)"
  using guest_clients by (simp add: GetUpdates_registered guest_logs zeroUpdateReply_def)

lemma solo_free:
  "clients (serveAll soloCalls) ''B'' = None" "clients (serveAll soloCalls) ''A1'' = None"
  by (simp_all add: soloCalls_def run_defs)

subsection \<open>What \<^verbatim>\<open>GetUpdates\<close> returns\<close>

text \<open>
  Claim C3. A call of \<^verbatim>\<open>GetUpdates\<close> by a registered client returns no error, leaves
  the room as it is, and returns exactly the messages of the log whose id is greater
  than \<open>LastMsgID\<close> and whose sender differs from the caller's id, in the order of the
  log. No returned message has the caller as its sender, whatever the log holds. In a
  room reached from a new room by a sequence of calls, the order of the log is the
  ascending order of ids, so the returned ids are strictly ascending.
\<close>

theorem GetUpdates_messages:
  assumes "clients cr (UpdateArgs.ID args) \<noteq> None"
    and "GetUpdates cr args reply = (cr', reply', err)"
  shows "err = None \<and> cr' = cr \<and>
     Messages reply' =
       filter (\<lambda>m. LastMsgID args < Message.ID m \<and> Sender m \<noteq> UpdateArgs.ID args) (logs cr) \<and>
     (\<forall>m\<in>set (Messages reply'). Sender m \<noteq> UpdateArgs.ID args) \<and>
     (cr = serveAll calls \<longrightarrow> sorted_wrt (<) (map Message.ID (Messages reply')))"
proof -
  let ?P = "\<lambda>m. LastMsgID args < Message.ID m \<and> Sender m \<noteq> UpdateArgs.ID args"
  from assms GetUpdates_registered [OF assms(1), of reply]
  have r: "err = None" "cr' = cr" "Messages reply' = filter ?P (logs cr)"
    by auto
  have "sorted_wrt (<) (map Message.ID (Messages reply'))" if "cr = serveAll calls"
    using that r(3) sorted_ids_serveAll [of calls] by (simp add: sorted_filter_ids)
  with r show ?thesis by simp
qed

text \<open>
  On the run \<open>duoCalls\<close>, \<open>B\<close> polls with \<open>LastMsgID = 1\<close>: it is sent the notice of
  its own join (whose sender is \<open>System\<close>) and both messages of \<open>A\<close>, not its own.
\<close>

theorem GetUpdates_messages_witness:
  "clients (serveAll duoCalls) ''B'' \<noteq> None \<and>
   snd (snd (GetUpdates (serveAll duoCalls) \<lparr>UpdateArgs.ID = ''B'', LastMsgID = 1\<rparr> zeroUpdateReply)) = None \<and>
   Messages (fst (snd (GetUpdates (serveAll duoCalls) \<lparr>UpdateArgs.ID = ''B'', LastMsgID = 1\<rparr> zeroUpdateReply))) =
     [\<lparr>Message.ID = 2, Sender = ''System'', Content = ''User B joined the chat'', Time = 111\<rparr>,
      \<lparr>Message.ID = 3, Sender = ''A'', Content = ''hi'', Time = 200\<rparr>,
      \<lparr>Message.ID = 5, Sender = ''A'', Content = ''bye'', Time = 400\<rparr>] \<and>
   sorted_wrt (<) (map Message.ID (Messages (fst (snd (GetUpdates (serveAll duoCalls) \<lparr>UpdateArgs.ID = ''B'', LastMsgID = 1\<rparr> zeroUpdateReply)))))"
proof -
  let ?args = "\<lparr>UpdateArgs.ID = ''B'', LastMsgID = 1\<rparr>"
  let ?g = "GetUpdates (serveAll duoCalls) ?args zeroUpdateReply"
  have h: "clients (serveAll duoCalls) (UpdateArgs.ID ?args) \<noteq> None"
    by (simp add: duo_clients)
  have e: "?g = (fst ?g, fst (snd ?g), snd (snd ?g))" by simp
  from GetUpdates_messages [OF h e, of duoCalls] h show ?thesis
    by (simp add: duo_logs)
qed

text \<open>
  Claim C10. When \<^verbatim>\<open>GetUpdates\<close> returns no error, the watermark \<open>NewMsgID\<close> is at
  least the \<open>LastMsgID\<close> of the call, and when the returned sequence is not empty the
  watermark is the id of its last message.
\<close>

theorem GetUpdates_watermark_bounds:
  assumes "GetUpdates cr args reply = (cr', reply', None)"
  shows "LastMsgID args \<le> NewMsgID reply' \<and>
     (Messages reply' \<noteq> [] \<longrightarrow> NewMsgID reply' = Message.ID (last (Messages reply')))"
proof -
  let ?P = "\<lambda>m. LastMsgID args < Message.ID m \<and> Sender m \<noteq> UpdateArgs.ID args"
  from assms have reg: "clients cr (UpdateArgs.ID args) \<noteq> None"
    by (auto simp: GetUpdates_def split: if_splits)
  from assms GetUpdates_registered [OF reg, of reply]
  have m: "Messages reply' = filter ?P (logs cr)"
    and w: "NewMsgID reply' =
      (if filter ?P (logs cr) = [] then LastMsgID args else Message.ID (last (filter ?P (logs cr))))"
    by auto
  have "LastMsgID args < Message.ID (last (filter ?P (logs cr)))" if "filter ?P (logs cr) \<noteq> []"
  proof -
    from that have "last (filter ?P (logs cr)) \<in> set (filter ?P (logs cr))" by (rule last_in_set)
    then show ?thesis by simp
  qed
  with m w show ?thesis by auto
qed

text \<open>
  On the run \<open>duoCalls\<close>, \<open>A\<close> polls with \<open>LastMsgID = 2\<close>: it is sent message 4
  of \<open>B\<close> and the watermark 4.
\<close>

theorem GetUpdates_watermark_bounds_witness:
  "GetUpdates (serveAll duoCalls) \<lparr>UpdateArgs.ID = ''A'', LastMsgID = 2\<rparr> zeroUpdateReply =
     (serveAll duoCalls,
      \<lparr>Messages = [\<lparr>Message.ID = 4, Sender = ''B'', Content = ''hello'', Time = 300\<rparr>],
       NewMsgID = 4\<rparr>, None) \<and>
   (2::int) \<le> 4 \<and>
   Message.ID (last [\<lparr>Message.ID = 4, Sender = ''B'', Content = ''hello'', Time = 300\<rparr>]) = 4"
proof -
  let ?args = "\<lparr>UpdateArgs.ID = ''A'', LastMsgID = 2\<rparr>"
  let ?m = "\<lparr>Message.ID = 4, Sender = ''B'', Content = ''hello'', Time = 300\<rparr>"
  have g: "GetUpdates (serveAll duoCalls) ?args zeroUpdateReply =
      (serveAll duoCalls, \<lparr>Messages = [?m], NewMsgID = 4\<rparr>, None)"
    using duo_clients(1) by (simp add: GetUpdates_registered duo_logs zeroUpdateReply_def)
  from GetUpdates_watermark_bounds [OF g] g show ?thesis by simp
qed

text \<open>
  Claim C1 says that the watermark is the highest id among all messages of the log above
  \<open>LastMsgID\<close>, those of the caller included. The \<^verbatim>\<open>continue\<close> of the no-echo test
  comes before \<^verbatim>\<open>maxID = m.ID\<close>, so a message of the caller does not move the
  watermark: after \<open>A\<close> has joined (id 1) and sent a message (id 2), its poll with
  \<open>LastMsgID = 0\<close> returns the watermark 1, below the id of its message.
\<close>

theorem GetUpdates_watermark_counterexample:
  "clients (serveAll soloCalls) ''A'' \<noteq> None \<and>
   Sender (last (logs (serveAll soloCalls))) = ''A'' \<and>
   Message.ID (last (logs (serveAll soloCalls))) = 2 \<and>
   LastMsgID \<lparr>UpdateArgs.ID = ''A'', LastMsgID = 0\<rparr> < Message.ID (last (logs (serveAll soloCalls))) \<and>
   NewMsgID (fst (snd (GetUpdates (serveAll soloCalls) \<lparr>UpdateArgs.ID = ''A'', LastMsgID = 0\<rparr>
      zeroUpdateReply))) = 1 \<and>
   NewMsgID (fst (snd (GetUpdates (serveAll soloCalls) \<lparr>UpdateArgs.ID = ''A'', LastMsgID = 0\<rparr>
      zeroUpdateReply))) < Message.ID (last (logs (serveAll soloCalls)))"
  by (simp add: solo_clients solo_logs solo_GetUpdates)

text \<open>
  Claim C1, amended. In a room reached from a new room, a call of \<^verbatim>\<open>GetUpdates\<close> by a
  registered client returns as watermark the highest id among the messages of the log
  above \<open>LastMsgID\<close> whose sender is not the caller, and \<open>LastMsgID\<close> itself when there
  is none; messages of the caller are never returned and do not advance the watermark.
\<close>

theorem GetUpdates_watermark_delivered:
  assumes "clients (serveAll calls) (UpdateArgs.ID args) \<noteq> None"
    and "GetUpdates (serveAll calls) args reply = (cr', reply', err)"
  shows "err = None \<and>
     NewMsgID reply' =
       Max (insert (LastMsgID args)
              (Message.ID ` {m \<in> set (logs (serveAll calls)).
                 LastMsgID args < Message.ID m \<and> Sender m \<noteq> UpdateArgs.ID args})) \<and>
     (\<forall>m\<in>set (logs (serveAll calls)).
        Sender m = UpdateArgs.ID args \<longrightarrow> m \<notin> set (Messages reply'))"
proof -
  let ?P = "\<lambda>m. LastMsgID args < Message.ID m \<and> Sender m \<noteq> UpdateArgs.ID args"
  let ?ms = "filter ?P (logs (serveAll calls))"
  from assms GetUpdates_registered [OF assms(1), of reply]
  have e: "err = None" and m: "Messages reply' = ?ms"
    and w: "NewMsgID reply' = (if ?ms = [] then LastMsgID args else Message.ID (last ?ms))"
    by auto
  have s: "sorted_wrt (<) (map Message.ID ?ms)"
    by (rule sorted_filter_ids) (rule sorted_ids_serveAll)
  have set_eq: "{m \<in> set (logs (serveAll calls)). ?P m} = set ?ms" by auto
  have "NewMsgID reply' = Max (insert (LastMsgID args) (Message.ID ` set ?ms))"
  proof (cases "?ms = []")
    case True
    with w show ?thesis by simp
  next
    case False
    then have l: "Message.ID (last ?ms) = Max (Message.ID ` set ?ms)"
      using s by (intro last_is_Max)
    from False have "last ?ms \<in> set ?ms" by (rule last_in_set)
    then have above: "LastMsgID args < Message.ID (last ?ms)" by simp
    have "Max (insert (LastMsgID args) (Message.ID ` set ?ms)) =
          max (LastMsgID args) (Max (Message.ID ` set ?ms))"
    proof (rule Max_insert)
      show "finite (Message.ID ` set ?ms)" by simp
      from False have "set ?ms \<noteq> {}" by (simp only: set_empty not_False_eq_True)
      then show "Message.ID ` set ?ms \<noteq> {}" by (simp only: image_is_empty not_False_eq_True)
    qed
    also have "\<dots> = Message.ID (last ?ms)"
      using above l by (simp add: max_def)
    finally show ?thesis using False w by simp
  qed
  moreover have "\<forall>m\<in>set (logs (serveAll calls)). Sender m = UpdateArgs.ID args \<longrightarrow> m \<notin> set ?ms"
    by simp
  ultimately show ?thesis using e m unfolding set_eq by simp
qed

text \<open>
  On the run \<open>duoCalls\<close>, \<open>B\<close> polls with \<open>LastMsgID = 3\<close>: its own message 4 is
  skipped and the watermark is 5, the id of the message of \<open>A\<close> after it.
\<close>

theorem GetUpdates_watermark_delivered_witness:
  "clients (serveAll duoCalls) ''B'' \<noteq> None \<and>
   snd (snd (GetUpdates (serveAll duoCalls) \<lparr>UpdateArgs.ID = ''B'', LastMsgID = 3\<rparr> zeroUpdateReply)) = None \<and>
   NewMsgID (fst (snd (GetUpdates (serveAll duoCalls) \<lparr>UpdateArgs.ID = ''B'', LastMsgID = 3\<rparr> zeroUpdateReply))) = 5 \<and>
   \<lparr>Message.ID = 4, Sender = ''B'', Content = ''hello'', Time = 300\<rparr> \<notin>
     set (Messages (fst (snd (GetUpdates (serveAll duoCalls) \<lparr>UpdateArgs.ID = ''B'', LastMsgID = 3\<rparr> zeroUpdateReply))))"
proof -
  let ?args = "\<lparr>UpdateArgs.ID = ''B'', LastMsgID = 3\<rparr>"
  let ?g = "GetUpdates (serveAll duoCalls) ?args zeroUpdateReply"
  have h: "clients (serveAll duoCalls) (UpdateArgs.ID ?args) \<noteq> None"
    by (simp add: duo_clients)
  have e: "?g = (fst ?g, fst (snd ?g), snd (snd ?g))" by simp
  have mx: "Max (insert (LastMsgID ?args)
              (Message.ID ` {m \<in> set (logs (serveAll duoCalls)).
                 LastMsgID ?args < Message.ID m \<and> Sender m \<noteq> UpdateArgs.ID ?args})) = 5"
  proof -
    have "{m \<in> set (logs (serveAll duoCalls)).
             LastMsgID ?args < Message.ID m \<and> Sender m \<noteq> UpdateArgs.ID ?args} =
          {\<lparr>Message.ID = 5, Sender = ''A'', Content = ''bye'', Time = 400\<rparr>}"
      by (auto simp: duo_logs)
    then show ?thesis by simp
  qed
  from GetUpdates_watermark_delivered [OF h e] h mx show ?thesis
    by (simp add: duo_logs)
qed

subsection \<open>\<^verbatim>\<open>Send\<close>\<close>

text \<open>In a reachable room the counter is not the id of any message of the log.\<close>

lemma fresh_nextID: "nextID (serveAll calls) \<notin> Message.ID ` set (logs (serveAll calls))"
proof -
  have "numbered (serveAll calls)" by (rule numbered_serveAll)
  then have "Message.ID ` set (logs (serveAll calls)) = {1..int (length (logs (serveAll calls)))}"
    and "nextID (serveAll calls) = int (length (logs (serveAll calls))) + 1"
    unfolding numbered_def by (metis list.set_map set_upto, simp)
  then show ?thesis by simp
qed

text \<open>
  Claim C5. A call of \<^verbatim>\<open>Send\<close> whose id is not a key of the registry returns the
  error \<^verbatim>\<open>user not registered\<close> (the spec's NotRegistered) and changes neither the
  room (registry, log, counter, every client's \<open>LastSeen\<close>) nor the reply. A call whose
  id is a key returns no error and \<open>Success = True\<close>, appends exactly one message with
  the caller as sender, the given content (whatever it is, the empty string included)
  and the counter as id, advances the counter by one, and sets \<open>LastSeen\<close> of that
  client, and nothing else in the registry, to the new id. In a reachable room the new
  id is fresh.
\<close>

theorem Send_effect:
  assumes "Send cr args reply tMsg = (cr', reply', err)"
  shows "(clients cr (SendArgs.ID args) = None \<longrightarrow>
            err = Some (Errorf ''user not registered'') \<and> cr' = cr \<and> reply' = reply) \<and>
         (\<forall>cl. clients cr (SendArgs.ID args) = Some cl \<longrightarrow>
            err = None \<and> SendReply.Success reply' \<and>
            logs cr' = logs cr @ [\<lparr>Message.ID = nextID cr, Sender = SendArgs.ID args,
                                   Content = SendArgs.Message args, Time = tMsg\<rparr>] \<and>
            nextID cr' = nextID cr + 1 \<and>
            clients cr' = (clients cr)(SendArgs.ID args \<mapsto> cl\<lparr>LastSeen := nextID cr\<rparr>) \<and>
            nameUsage cr' = nameUsage cr \<and>
            (cr = serveAll calls \<longrightarrow> nextID cr \<notin> Message.ID ` set (logs cr)))"
  using assms fresh_nextID [of calls]
  by (auto simp: Send_def Let_def split: option.splits)

text \<open>
  After the run \<open>soloCalls\<close>: a message of the unknown \<open>Z\<close> is refused and nothing
  changes; the empty message of \<open>A\<close> is accepted and gets id 3.
\<close>

theorem Send_effect_witness:
  "clients (serveAll soloCalls) ''Z'' = None \<and>
   Send (serveAll soloCalls) \<lparr>SendArgs.ID = ''Z'', SendArgs.Message = ''hi''\<rparr> zeroSendReply 500 =
     (serveAll soloCalls, zeroSendReply, Some (Errorf ''user not registered'')) \<and>
   clients (serveAll soloCalls) ''A'' =
     Some \<lparr>Client.ID = ''A'', LastSeen = 2, JoinedAt = 100, Original = ''A''\<rparr> \<and>
   snd (snd (Send (serveAll soloCalls) \<lparr>SendArgs.ID = ''A'', SendArgs.Message = []\<rparr> zeroSendReply 500)) = None \<and>
   SendReply.Success (fst (snd (Send (serveAll soloCalls) \<lparr>SendArgs.ID = ''A'', SendArgs.Message = []\<rparr> zeroSendReply 500))) \<and>
   logs (fst (Send (serveAll soloCalls) \<lparr>SendArgs.ID = ''A'', SendArgs.Message = []\<rparr> zeroSendReply 500)) =
     logs (serveAll soloCalls) @ [\<lparr>Message.ID = 3, Sender = ''A'', Content = [], Time = 500\<rparr>] \<and>
   nextID (fst (Send (serveAll soloCalls) \<lparr>SendArgs.ID = ''A'', SendArgs.Message = []\<rparr> zeroSendReply 500)) = 4 \<and>
   clients (fst (Send (serveAll soloCalls) \<lparr>SendArgs.ID = ''A'', SendArgs.Message = []\<rparr> zeroSendReply 500)) ''A'' =
     Some \<lparr>Client.ID = ''A'', LastSeen = 3, JoinedAt = 100, Original = ''A''\<rparr>"
proof -
  let ?cr = "serveAll soloCalls"
  let ?z = "Send ?cr \<lparr>SendArgs.ID = ''Z'', SendArgs.Message = ''hi''\<rparr> zeroSendReply 500"
  let ?a = "Send ?cr \<lparr>SendArgs.ID = ''A'', SendArgs.Message = []\<rparr> zeroSendReply 500"
  have z: "clients ?cr ''Z'' = None"
    by (simp add: soloCalls_def run_defs)
  have a: "clients ?cr ''A'' = Some \<lparr>Client.ID = ''A'', LastSeen = 2, JoinedAt = 100, Original = ''A''\<rparr>"
    by (simp add: soloCalls_def run_defs)
  have n: "nextID ?cr = 3"
    by (simp add: soloCalls_def run_defs)
  have ez: "?z = (fst ?z, fst (snd ?z), snd (snd ?z))" by simp
  have ea: "?a = (fst ?a, fst (snd ?a), snd (snd ?a))" by simp
  from Send_effect [OF ez] z have "?z = (?cr, zeroSendReply, Some (Errorf ''user not registered''))"
    by (simp add: prod_eq_iff)
  moreover from Send_effect [OF ea] a n
  have "snd (snd ?a) = None" "SendReply.Success (fst (snd ?a))"
    "logs (fst ?a) = logs ?cr @ [\<lparr>Message.ID = 3, Sender = ''A'', Content = [], Time = 500\<rparr>]"
    "nextID (fst ?a) = 4"
    "clients (fst ?a) ''A'' = Some \<lparr>Client.ID = ''A'', LastSeen = 3, JoinedAt = 100, Original = ''A''\<rparr>"
    by simp_all
  ultimately show ?thesis using z a by simp
qed

subsection \<open>The ids of the registered clients\<close>

lemma keyed_Join: "keyed cr \<Longrightarrow> keyed (fst (Join cr args reply now tJoined tSys))"
  by (simp add: keyed_def Join_def Let_def)

lemma keyed_Send: "keyed cr \<Longrightarrow> keyed (fst (Send cr args reply tMsg))"
  by (auto simp: keyed_def Send_def Let_def split: option.splits)

lemma keyed_GetUpdates: "keyed cr \<Longrightarrow> keyed (fst (GetUpdates cr args reply))"
  by (simp add: GetUpdates_def split: prod.splits)

lemma keyed_Leave: "keyed cr \<Longrightarrow> keyed (fst (Leave cr args reply tMsg))"
  by (simp add: keyed_def Leave_def Let_def)

lemma keyed_serve: "keyed cr \<Longrightarrow> keyed (serve cr c)"
  by (cases c) (simp_all add: keyed_Join keyed_Send keyed_GetUpdates keyed_Leave)

lemma keyed_serveAll: "keyed (serveAll calls)"
proof (induction calls rule: rev_induct)
  case Nil
  show ?case by (simp add: serveAll_def keyed_def NewChatRoom_def)
next
  case (snoc c calls)
  then show ?case by (simp add: serveAll_def keyed_serve)
qed

text \<open>
  Claim C9. Every client stored in the registry has as its \<open>ID\<close> the key it is stored
  under. This holds in a new room, each of the four methods preserves it, so it holds
  after every sequence of calls: looking a client up by name yields a client with that
  name as \<open>ID\<close>.
\<close>

theorem registry_keys_are_ids:
  "keyed NewChatRoom \<and>
   (keyed cr \<longrightarrow>
      keyed (fst (Join cr jargs jreply now tJoined tSys)) \<and>
      keyed (fst (Send cr sargs sreply tMsg)) \<and>
      keyed (fst (GetUpdates cr uargs ureply)) \<and>
      keyed (fst (Leave cr largs lreply tLeave))) \<and>
   keyed (serveAll calls) \<and>
   (clients (serveAll calls) name = Some cl \<longrightarrow> Client.ID cl = name)"
proof -
  have "keyed NewChatRoom" by (simp add: keyed_def NewChatRoom_def)
  moreover have "keyed (serveAll calls)" by (rule keyed_serveAll)
  moreover from this have "clients (serveAll calls) name = Some cl \<longrightarrow> Client.ID cl = name"
    by (simp add: keyed_def)
  ultimately show ?thesis
    by (simp add: keyed_Join keyed_Send keyed_GetUpdates keyed_Leave)
qed

text \<open>After the run \<open>soloCalls\<close>, and after one more call of each method.\<close>

theorem registry_keys_are_ids_witness:
  "keyed (serveAll soloCalls) \<and>
   keyed (fst (Join (serveAll soloCalls) \<lparr>RequestedName = ''A''\<rparr> zeroJoinReply 7 300 301)) \<and>
   keyed (fst (Send (serveAll soloCalls) \<lparr>SendArgs.ID = ''A'', SendArgs.Message = ''yo''\<rparr> zeroSendReply 310)) \<and>
   keyed (fst (GetUpdates (serveAll soloCalls) \<lparr>UpdateArgs.ID = ''A'', LastMsgID = 0\<rparr> zeroUpdateReply)) \<and>
   keyed (fst (Leave (serveAll soloCalls) \<lparr>LeaveArgs.ID = ''A''\<rparr> zeroJoinReply 320)) \<and>
   clients (serveAll soloCalls) ''A'' =
     Some \<lparr>Client.ID = ''A'', LastSeen = 2, JoinedAt = 100, Original = ''A''\<rparr> \<and>
   Client.ID \<lparr>Client.ID = ''A'', LastSeen = 2, JoinedAt = 100, Original = ''A''\<rparr> = ''A''"
proof -
  have k: "keyed (serveAll soloCalls)"
    by (simp add: keyed_def soloCalls_def run_defs)
  from k solo_client_A
    registry_keys_are_ids [of "serveAll soloCalls" "\<lparr>RequestedName = ''A''\<rparr>" zeroJoinReply 7 300 301
      "\<lparr>SendArgs.ID = ''A'', SendArgs.Message = ''yo''\<rparr>" zeroSendReply 310
      "\<lparr>UpdateArgs.ID = ''A'', LastMsgID = 0\<rparr>" zeroUpdateReply
      "\<lparr>LeaveArgs.ID = ''A''\<rparr>" zeroJoinReply 320 soloCalls "''A''"
      "\<lparr>Client.ID = ''A'', LastSeen = 2, JoinedAt = 100, Original = ''A''\<rparr>"]
  show ?thesis by simp
qed

subsection \<open>\<^verbatim>\<open>Leave\<close> of an id that is not registered\<close>

text \<open>
  The early \<^verbatim>\<open>return nil\<close> of \<^verbatim>\<open>Leave\<close> comes before \<^verbatim>\<open>reply.Success = true\<close>:
  room and reply are returned as they came.
\<close>

lemma Leave_unregistered:
  "clients cr (LeaveArgs.ID args) = None \<Longrightarrow> Leave cr args reply tMsg = (cr, reply, None)"
  by (simp add: Leave_def)

text \<open>
  Claim C4 says that \<^verbatim>\<open>Leave\<close> of an id that is not a key of the registry reports
  success in its reply. It returns no error and changes nothing in the room, but the
  reply still holds what \<^verbatim>\<open>net/rpc\<close> allocated: \<open>Success = False\<close>. This is so for an
  id that never joined and for the second \<^verbatim>\<open>Leave\<close> of a client, whereas the first
  \<^verbatim>\<open>Leave\<close> of a registered client sets \<open>Success = True\<close>.
\<close>

theorem Leave_unregistered_reply:
  "Leave NewChatRoom \<lparr>LeaveArgs.ID = ''ghost''\<rparr> zeroJoinReply 500 =
     (NewChatRoom, zeroJoinReply, None) \<and>
   Leave (serveAll leaveCalls) \<lparr>LeaveArgs.ID = ''A''\<rparr> zeroJoinReply 500 =
     (serveAll leaveCalls, zeroJoinReply, None) \<and>
   JoinReply.Success zeroJoinReply = False \<and>
   JoinReply.Success (fst (snd (Leave (serveAll [CallJoin \<lparr>RequestedName = ''A''\<rparr> 7 100 101])
      \<lparr>LeaveArgs.ID = ''A''\<rparr> zeroJoinReply 200))) = True"
proof -
  have "clients NewChatRoom ''ghost'' = None" by (simp add: NewChatRoom_def)
  then have "Leave NewChatRoom \<lparr>LeaveArgs.ID = ''ghost''\<rparr> zeroJoinReply 500 =
     (NewChatRoom, zeroJoinReply, None)"
    by (simp add: Leave_unregistered)
  moreover have "Leave (serveAll leaveCalls) \<lparr>LeaveArgs.ID = ''A''\<rparr> zeroJoinReply 500 =
     (serveAll leaveCalls, zeroJoinReply, None)"
    by (simp add: Leave_unregistered leave_clients)
  moreover have "JoinReply.Success (fst (snd (Leave (serveAll [CallJoin \<lparr>RequestedName = ''A''\<rparr> 7 100 101])
      \<lparr>LeaveArgs.ID = ''A''\<rparr> zeroJoinReply 200))) = True"
    by (simp add: run_defs)
  ultimately show ?thesis by (simp add: zeroJoinReply_def)
qed

subsection \<open>The end-to-end scenario\<close>

text \<open>
  Claim C8 says that in the scenario the message \<open>hi\<close> gets id 2, that the poll of
  \<open>Guest1\<close> leaves out the notice of its own join, and that the watermark is 2. Both
  joins append a notice, so \<open>hi\<close> is the third message; the notice of the join of
  \<open>Guest1\<close> has the sender \<open>System\<close>, not \<open>Guest1\<close>, so it is returned; and the
  watermark is 3.
\<close>

theorem guest_scenario_counterexample:
  "Sender (last (logs (serveAll guestCalls))) = ''Guest'' \<and>
   Content (last (logs (serveAll guestCalls))) = ''hi'' \<and>
   Message.ID (last (logs (serveAll guestCalls))) \<noteq> 2 \<and>
   NewMsgID (fst (snd (GetUpdates (serveAll guestCalls)
      \<lparr>UpdateArgs.ID = ''Guest1'', LastMsgID = 0\<rparr> zeroUpdateReply))) \<noteq> 2 \<and>
   \<lparr>Message.ID = 2, Sender = ''System'', Content = ''User Guest1 joined the chat'', Time = 111\<rparr>
     \<in> set (Messages (fst (snd (GetUpdates (serveAll guestCalls)
      \<lparr>UpdateArgs.ID = ''Guest1'', LastMsgID = 0\<rparr> zeroUpdateReply))))"
  by (simp add: guest_logs guest_GetUpdates)

text \<open>
  Claim C8, amended. From an empty room, whatever the clock reads: \<^verbatim>\<open>Join("")\<close> is
  assigned \<open>Guest\<close>; \<^verbatim>\<open>Join("Guest")\<close> is assigned \<open>Guest1\<close>; the message \<open>hi\<close> of
  \<open>Guest\<close> is accepted and gets id 3, the two joins having produced ids 1 and 2; and
  \<^verbatim>\<open>GetUpdates("Guest1", 0)\<close> returns all three messages, the notice of the join of
  \<open>Guest1\<close> included, with \<open>NewMsgID = 3\<close>.
\<close>

theorem guest_scenario:
  "AssignedName (fst (snd (Join NewChatRoom \<lparr>RequestedName = []\<rparr> zeroJoinReply n1 j1 s1))) = ''Guest'' \<and>
   AssignedName (fst (snd (Join (serveAll [CallJoin \<lparr>RequestedName = []\<rparr> n1 j1 s1])
      \<lparr>RequestedName = ''Guest''\<rparr> zeroJoinReply n2 j2 s2))) = ''Guest1'' \<and>
   snd (snd (Send (serveAll [CallJoin \<lparr>RequestedName = []\<rparr> n1 j1 s1,
                      CallJoin \<lparr>RequestedName = ''Guest''\<rparr> n2 j2 s2])
      \<lparr>SendArgs.ID = ''Guest'', SendArgs.Message = ''hi''\<rparr> zeroSendReply t3)) = None \<and>
   logs (serveAll [CallJoin \<lparr>RequestedName = []\<rparr> n1 j1 s1,
                   CallJoin \<lparr>RequestedName = ''Guest''\<rparr> n2 j2 s2,
                   CallSend \<lparr>SendArgs.ID = ''Guest'', SendArgs.Message = ''hi''\<rparr> t3]) =
     [\<lparr>Message.ID = 1, Sender = ''System'', Content = ''User Guest joined the chat'', Time = s1\<rparr>,
      \<lparr>Message.ID = 2, Sender = ''System'', Content = ''User Guest1 joined the chat'', Time = s2\<rparr>,
      \<lparr>Message.ID = 3, Sender = ''Guest'', Content = ''hi'', Time = t3\<rparr>] \<and>
   snd (GetUpdates (serveAll [CallJoin \<lparr>RequestedName = []\<rparr> n1 j1 s1,
                   CallJoin \<lparr>RequestedName = ''Guest''\<rparr> n2 j2 s2,
                   CallSend \<lparr>SendArgs.ID = ''Guest'', SendArgs.Message = ''hi''\<rparr> t3])
      \<lparr>UpdateArgs.ID = ''Guest1'', LastMsgID = 0\<rparr> zeroUpdateReply) =
     (\<lparr>Messages =
         [\<lparr>Message.ID = 1, Sender = ''System'', Content = ''User Guest joined the chat'', Time = s1\<rparr>,
          \<lparr>Message.ID = 2, Sender = ''System'', Content = ''User Guest1 joined the chat'', Time = s2\<rparr>,
          \<lparr>Message.ID = 3, Sender = ''Guest'', Content = ''hi'', Time = t3\<rparr>],
       NewMsgID = 3\<rparr>, None)"
  by (simp add: run_defs)

subsection \<open>Decimal numerals are distinct\<close>

text \<open>
  Distinct numbers are written differently, no number is written as the empty string,
  and no digit is an underscore.
\<close>

lemma digit_inj: "d < 10 \<Longrightarrow> e < 10 \<Longrightarrow> digit d = digit e \<Longrightarrow> d = e"
proof -
  assume "d < 10" "e < 10" "digit d = digit e"
  moreover have "distinct ''0123456789''" by simp
  ultimately show "d = e"
    unfolding digit_def by (simp add: nth_eq_iff_index_eq)
qed

lemma utoa_not_Nil: "utoa n \<noteq> []"
  by (subst utoa.simps) simp

lemma utoa_inj: "utoa n = utoa m \<Longrightarrow> n = m"
proof (induction n arbitrary: m rule: utoa.induct)
  case (1 n)
  show ?case
  proof (cases "n < 10")
    case small: True
    show ?thesis
    proof (cases "m < 10")
      case True
      with small "1.prems" show ?thesis
        by (simp add: utoa.simps [of n] utoa.simps [of m] digit_inj)
    next
      case False
      with small "1.prems" show ?thesis
        using utoa_not_Nil [of "m div 10"]
        by (simp add: utoa.simps [of n] utoa.simps [of m])
    qed
  next
    case big: False
    show ?thesis
    proof (cases "m < 10")
      case True
      with big "1.prems" show ?thesis
        using utoa_not_Nil [of "n div 10"]
        by (simp add: utoa.simps [of n] utoa.simps [of m])
    next
      case False
      with big "1.prems" have "utoa (n div 10) = utoa (m div 10)"
        and "digit (n mod 10) = digit (m mod 10)"
        by (simp_all add: utoa.simps [of n] utoa.simps [of m])
      with big "1.IH" have "n div 10 = m div 10" and "n mod 10 = m mod 10"
        by (simp_all add: digit_inj)
      then show ?thesis by (metis div_mult_mod_eq)
    qed
  qed
qed

lemma utoa_no_underscore: "CHR ''_'' \<notin> set (utoa n)"
proof (induction n rule: utoa.induct)
  case (1 n)
  have d: "digit k \<noteq> CHR ''_''" if "k < 10" for k
  proof -
    from that have "k \<in> {0, 1, 2, 3, 4, 5, 6, 7, 8, 9}" by auto
    then show ?thesis by (auto simp: digit_def)
  qed
  show ?case
  proof (cases "n < 10")
    case True
    then show ?thesis using d [of n] by (simp add: utoa.simps [of n])
  next
    case False
    with "1.IH" d [of "n mod 10"] show ?thesis
      by (simp add: utoa.simps [of n])
  qed
qed

lemma itoa_nat: "itoa (int n) = utoa n"
  by (simp add: itoa_def)

lemma itoa_1: "itoa 1 = ''1''"
  by (simp add: itoa_def utoa.simps digit_def)

lemma itoa_5: "itoa 5 = ''5''"
  by (simp add: itoa_def utoa.simps digit_def)

lemma itoa_6: "itoa 6 = ''6''"
  by (simp add: itoa_def utoa.simps digit_def)

subsection \<open>The loop of \<^verbatim>\<open>assignName\<close>\<close>

text \<open>
  The loop returns the first candidate that is free, if one of the candidates from \<open>k\<close>
  to 99 is free, and runs to its end otherwise. What it returns is free.
\<close>

lemma assignName_loop_first:
  "k \<le> i \<Longrightarrow> i \<le> 99 \<Longrightarrow> cs (base @ itoa i) = None \<Longrightarrow>
   (\<forall>j. k \<le> j \<and> j < i \<longrightarrow> cs (base @ itoa j) \<noteq> None) \<Longrightarrow>
   assignName_loop cs base k = Some (base @ itoa i)"
proof (induction cs base k rule: assignName_loop.induct)
  case (1 cs base k)
  show ?case
  proof (cases "k = i")
    case True
    with "1.prems" show ?thesis by (simp add: assignName_loop.simps [of cs base i])
  next
    case False
    with "1.prems" have lt: "k < i" and taken: "cs (base @ itoa k) \<noteq> None" by auto
    with "1.prems" have "assignName_loop cs base (k + 1) = Some (base @ itoa i)"
      by (intro "1.IH") auto
    with lt taken "1.prems" show ?thesis
      by (auto simp: assignName_loop.simps [of cs base k] Let_def)
  qed
qed

lemma assignName_loop_none:
  "(\<forall>j. k \<le> j \<and> j \<le> 99 \<longrightarrow> cs (base @ itoa j) \<noteq> None) \<Longrightarrow>
   assignName_loop cs base k = None"
proof (induction cs base k rule: assignName_loop.induct)
  case (1 cs base k)
  show ?case
  proof (cases "k \<le> 99")
    case True
    with "1.prems" have taken: "cs (base @ itoa k) \<noteq> None" by simp
    with True "1.prems" have "assignName_loop cs base (k + 1) = None"
      by (intro "1.IH") auto
    with True taken show ?thesis
      by (auto simp: assignName_loop.simps [of cs base k] Let_def)
  next
    case False
    then show ?thesis by (simp add: assignName_loop.simps [of cs base k])
  qed
qed

lemma assignName_loop_found:
  "k \<le> i \<Longrightarrow> i \<le> 99 \<Longrightarrow> cs (base @ itoa i) = None \<Longrightarrow> assignName_loop cs base k \<noteq> None"
proof (induction cs base k rule: assignName_loop.induct)
  case (1 cs base k)
  show ?case
  proof (cases "cs (base @ itoa k) = None")
    case True
    with "1.prems" show ?thesis by (simp add: assignName_loop.simps [of cs base k])
  next
    case False
    with "1.prems" have "k \<noteq> i" by auto
    with "1.prems" False have "assignName_loop cs base (k + 1) \<noteq> None"
      by (intro "1.IH") auto
    with False "1.prems" show ?thesis
      by (auto simp: assignName_loop.simps [of cs base k] Let_def)
  qed
qed

lemma assignName_loop_absent: "assignName_loop cs base k = Some c \<Longrightarrow> cs c = None"
proof (induction cs base k rule: assignName_loop.induct)
  case (1 cs base k)
  from "1.prems" have k: "k \<le> 99"
    by (simp add: assignName_loop.simps [of cs base k] split: if_splits)
  show ?case
  proof (cases "cs (base @ itoa k) = None")
    case True
    with k "1.prems" show ?thesis
      by (simp add: assignName_loop.simps [of cs base k])
  next
    case False
    with k "1.prems" have "assignName_loop cs base (k + 1) = Some c"
      by (simp add: assignName_loop.simps [of cs base k] Let_def)
    with k False show ?thesis by (intro "1.IH") auto
  qed
qed

subsection \<open>\<^verbatim>\<open>assignName\<close>\<close>

lemma assignName_free:
  "requested \<noteq> [] \<Longrightarrow> clients cr requested = None \<Longrightarrow> assignName cr requested now = requested"
  by (simp add: assignName_def)

lemma assignName_suffixed:
  "requested \<noteq> [] \<Longrightarrow> clients cr requested \<noteq> None \<Longrightarrow> 1 \<le> i \<Longrightarrow> i \<le> 99 \<Longrightarrow>
   clients cr (requested @ itoa i) = None \<Longrightarrow>
   (\<forall>j. 1 \<le> j \<and> j < i \<longrightarrow> clients cr (requested @ itoa j) \<noteq> None) \<Longrightarrow>
   assignName cr requested now = requested @ itoa i"
  using assignName_loop_first [of 1 i "clients cr" requested]
  by (auto simp: assignName_def)

lemma assignName_fallback:
  "requested \<noteq> [] \<Longrightarrow> clients cr requested \<noteq> None \<Longrightarrow>
   (\<forall>j. 1 \<le> j \<and> j \<le> 99 \<longrightarrow> clients cr (requested @ itoa j) \<noteq> None) \<Longrightarrow>
   assignName cr requested now = requested @ ''_'' @ itoa (now smod 9999)"
  using assignName_loop_none [of 1 "clients cr" requested]
  by (auto simp: assignName_def)

lemma assignName_empty: "assignName cr [] now = assignName cr ''Guest'' now"
  by (simp add: assignName_def)

lemma assignName_clock_free:
  assumes "clients cr requested = None \<or>
     (\<exists>i. 1 \<le> i \<and> i \<le> 99 \<and> clients cr (requested @ itoa i) = None)"
    and "requested \<noteq> []"
  shows "assignName cr requested now = assignName cr requested now'"
proof (cases "clients cr requested = None")
  case True
  with assms(2) show ?thesis by (simp add: assignName_def)
next
  case False
  with assms(1) obtain i where "1 \<le> i" "i \<le> 99" "clients cr (requested @ itoa i) = None"
    by blast
  then have "assignName_loop (clients cr) requested 1 \<noteq> None"
    by (rule assignName_loop_found)
  with assms(2) show ?thesis by (auto simp: assignName_def)
qed

lemma assignName_absent:
  assumes "requested \<noteq> []"
    and "clients cr requested = None \<or>
     (\<exists>i. 1 \<le> i \<and> i \<le> 99 \<and> clients cr (requested @ itoa i) = None)"
  shows "clients cr (assignName cr requested now) = None"
proof (cases "clients cr requested = None")
  case True
  with assms(1) show ?thesis by (simp add: assignName_def)
next
  case False
  with assms(2) obtain i where "1 \<le> i" "i \<le> 99" "clients cr (requested @ itoa i) = None"
    by blast
  then have "assignName_loop (clients cr) requested 1 \<noteq> None"
    by (rule assignName_loop_found)
  then obtain c where c: "assignName_loop (clients cr) requested 1 = Some c" by blast
  then have "clients cr c = None" by (rule assignName_loop_absent)
  with assms(1) False c show ?thesis by (simp add: assignName_def)
qed

subsection \<open>\<^verbatim>\<open>Join\<close>\<close>

lemma serveAll_snoc: "serveAll (calls @ [c]) = serve (serveAll calls) c"
  by (simp add: serveAll_def)

lemma clients_Join:
  "clients (fst (Join cr args reply now tJoined tSys)) =
     (clients cr)(assignName cr (RequestedName args) now \<mapsto>
        \<lparr>Client.ID = assignName cr (RequestedName args) now, LastSeen = nextID cr - 1,
         JoinedAt = tJoined, Original = RequestedName args\<rparr>)"
  by (simp add: Join_def Let_def)

lemma length_logs_Join:
  "length (logs (fst (Join cr args reply now tJoined tSys))) = Suc (length (logs cr))"
  by (simp add: Join_def Let_def)

lemma nextID_serveAll: "nextID (serveAll calls) = int (length (logs (serveAll calls))) + 1"
  using numbered_serveAll [of calls] by (simp add: numbered_def)

lemma Join_effect:
  assumes "Join cr args reply now tJoined tSys = (cr', reply', err)"
  shows "err = None \<and> JoinReply.Success reply' \<and>
     AssignedName reply' = assignName cr (RequestedName args) now \<and>
     JoinReply.Message reply' = ''Welcome! You are now '' @ AssignedName reply' \<and>
     logs cr' = logs cr @ [\<lparr>Message.ID = nextID cr, Sender = ''System'',
        Content = ''User '' @ AssignedName reply' @ '' joined the chat'', Time = tSys\<rparr>] \<and>
     nextID cr' = nextID cr + 1 \<and>
     clients cr' = (clients cr)(AssignedName reply' \<mapsto>
        \<lparr>Client.ID = AssignedName reply', LastSeen = nextID cr - 1,
         JoinedAt = tJoined, Original = RequestedName args\<rparr>)"
  using assms by (auto simp: Join_def Let_def)

text \<open>
  When the requested name or one of its ninety-nine suffixed candidates is free, the
  registry grows by one client.
\<close>

lemma Join_registry_grows:
  assumes "RequestedName args \<noteq> []"
    and "clients cr (RequestedName args) = None \<or>
     (\<exists>i. 1 \<le> i \<and> i \<le> 99 \<and> clients cr (RequestedName args @ itoa i) = None)"
    and "finite (dom (clients cr))"
  shows "card (dom (clients (fst (Join cr args reply now tJoined tSys)))) =
     Suc (card (dom (clients cr)))"
proof -
  have "assignName cr (RequestedName args) now \<notin> dom (clients cr)"
    using assignName_absent [OF assms(1) assms(2)] by (simp add: domIff)
  with assms(3) show ?thesis by (simp add: clients_Join)
qed

subsection \<open>A registry that holds all hundred candidates\<close>

lemma suffix_inj: "''A'' @ itoa (int n) = ''A'' @ itoa (int m) \<Longrightarrow> n = m"
  by (simp add: itoa_nat utoa_inj)

lemma crowd_dom:
  "k \<le> 100 \<Longrightarrow>
   dom (clients (serveAll (replicate k (CallJoin \<lparr>RequestedName = ''A''\<rparr> 7 100 101)))) =
     (if k = 0 then {} else insert ''A'' ((\<lambda>n. ''A'' @ itoa (int n)) ` {1..<k}))"
proof (induction k)
  case 0
  show ?case by (simp add: serveAll_def NewChatRoom_def)
next
  case (Suc k)
  let ?J = "CallJoin \<lparr>RequestedName = ''A''\<rparr> 7 100 101"
  let ?cr = "serveAll (replicate k ?J)"
  have step: "serveAll (replicate (Suc k) ?J) = serve ?cr ?J"
    using serveAll_snoc [of "replicate k ?J" ?J] by (simp add: replicate_append_same)
  have d: "dom (clients (serve ?cr ?J)) = insert (assignName ?cr ''A'' 7) (dom (clients ?cr))"
    by (simp add: clients_Join)
  from Suc have ih: "dom (clients ?cr) =
      (if k = 0 then {} else insert ''A'' ((\<lambda>n. ''A'' @ itoa (int n)) ` {1..<k}))"
    by simp
  show ?case
  proof (cases "k = 0")
    case True
    with ih have "''A'' \<notin> dom (clients ?cr)" by simp
    then have "clients ?cr ''A'' = None" by (simp add: domIff)
    then have "assignName ?cr ''A'' 7 = ''A''" by (simp add: assignName_free)
    with True ih d step show ?thesis by simp
  next
    case False
    with ih have domk: "dom (clients ?cr) = insert ''A'' ((\<lambda>n. ''A'' @ itoa (int n)) ` {1..<k})"
      by simp
    then have "''A'' \<in> dom (clients ?cr)" by (simp only: insertI1)
    then have base: "clients ?cr ''A'' \<noteq> None" by (simp add: domIff)
    have free: "clients ?cr (''A'' @ itoa (int k)) = None"
    proof -
      have "''A'' @ itoa (int k) \<noteq> ''A''" by (simp add: itoa_nat utoa_not_Nil)
      moreover have "''A'' @ itoa (int k) \<notin> (\<lambda>n. ''A'' @ itoa (int n)) ` {1..<k}"
      proof
        assume "''A'' @ itoa (int k) \<in> (\<lambda>n. ''A'' @ itoa (int n)) ` {1..<k}"
        then obtain n where "n \<in> {1..<k}" "''A'' @ itoa (int k) = ''A'' @ itoa (int n)" by blast
        then show False using suffix_inj [of k n] by simp
      qed
      ultimately have "''A'' @ itoa (int k) \<notin> dom (clients ?cr)" using domk by simp
      then show ?thesis by (simp add: domIff)
    qed
    have taken: "\<forall>j. 1 \<le> j \<and> j < int k \<longrightarrow> clients ?cr (''A'' @ itoa j) \<noteq> None"
    proof (intro allI impI)
      fix j :: int
      assume j: "1 \<le> j \<and> j < int k"
      then have "nat j \<in> {1..<k}" and "int (nat j) = j" by auto
      then have "''A'' @ itoa j \<in> (\<lambda>n. ''A'' @ itoa (int n)) ` {1..<k}"
        by (metis image_eqI)
      with domk have "''A'' @ itoa j \<in> dom (clients ?cr)" by simp
      then show "clients ?cr (''A'' @ itoa j) \<noteq> None" by (simp add: domIff)
    qed
    from False Suc.prems have "1 \<le> int k" "int k \<le> 99" by simp_all
    with base free taken have "assignName ?cr ''A'' 7 = ''A'' @ itoa (int k)"
      by (intro assignName_suffixed) simp_all
    with d domk have "dom (clients (serve ?cr ?J)) =
        insert ''A'' (insert (''A'' @ itoa (int k)) ((\<lambda>n. ''A'' @ itoa (int n)) ` {1..<k}))"
      by (simp add: insert_commute)
    also have "insert (''A'' @ itoa (int k)) ((\<lambda>n. ''A'' @ itoa (int n)) ` {1..<k}) =
        (\<lambda>n. ''A'' @ itoa (int n)) ` {1..<Suc k}"
      using False by (simp add: atLeastLessThanSuc)
    finally show ?thesis using step by simp
  qed
qed

lemma crowd_dom_100:
  "dom (clients (serveAll crowdCalls)) = insert ''A'' ((\<lambda>n. ''A'' @ itoa (int n)) ` {1..<100})"
  using crowd_dom [of 100] by (simp add: crowdCalls_def)

lemma crowd_base: "clients (serveAll crowdCalls) ''A'' \<noteq> None"
proof -
  have "''A'' \<in> dom (clients (serveAll crowdCalls))" by (simp only: crowd_dom_100 insertI1)
  then show ?thesis by (simp add: domIff)
qed

lemma crowd_taken:
  "\<forall>j. 1 \<le> j \<and> j \<le> 99 \<longrightarrow> clients (serveAll crowdCalls) (''A'' @ itoa j) \<noteq> None"
proof (intro allI impI)
  fix j :: int
  assume "1 \<le> j \<and> j \<le> 99"
  then have "nat j \<in> {1..<100}" and "int (nat j) = j" by auto
  then have "''A'' @ itoa j \<in> (\<lambda>n. ''A'' @ itoa (int n)) ` {1..<100}"
    by (metis image_eqI)
  with crowd_dom_100 have "''A'' @ itoa j \<in> dom (clients (serveAll crowdCalls))" by simp
  then show "clients (serveAll crowdCalls) (''A'' @ itoa j) \<noteq> None" by (simp add: domIff)
qed

lemma crowd_assignName:
  "assignName (serveAll crowdCalls) ''A'' now = ''A_'' @ itoa (now smod 9999)"
  using assignName_fallback [of "''A''" "serveAll crowdCalls" now] crowd_base crowd_taken
  by simp

lemma crowd_length:
  "length (logs (serveAll (replicate k (CallJoin \<lparr>RequestedName = ''A''\<rparr> 7 100 101)))) = k"
proof (induction k)
  case 0
  show ?case by (simp add: serveAll_def NewChatRoom_def)
next
  case (Suc k)
  let ?J = "CallJoin \<lparr>RequestedName = ''A''\<rparr> 7 100 101"
  have "serveAll (replicate (Suc k) ?J) = serve (serveAll (replicate k ?J)) ?J"
    using serveAll_snoc [of "replicate k ?J" ?J] by (simp add: replicate_append_same)
  with Suc show ?case by (simp add: length_logs_Join)
qed

lemma crowd_nextID: "nextID (serveAll crowdCalls) = 101"
  using crowd_length [of 100] by (simp add: nextID_serveAll crowdCalls_def)

lemma underscore_not_suffix: "''A_5'' \<noteq> ''A'' @ itoa (int n)"
proof
  assume "''A_5'' = ''A'' @ itoa (int n)"
  then have "utoa n = ''_5''" by (simp add: itoa_nat)
  then have "CHR ''_'' \<in> set (utoa n)" by simp
  then show False by (simp add: utoa_no_underscore)
qed

lemma crowd_A_5_free: "clients (serveAll crowdCalls) ''A_5'' = None"
proof -
  have "''A_5'' \<notin> dom (clients (serveAll crowdCalls))"
    using underscore_not_suffix by (auto simp: crowd_dom_100)
  then show ?thesis by (simp add: domIff)
qed

lemma clash_clients:
  "clients (serveAll clashCalls) =
     (clients (serveAll crowdCalls))(''A_5'' \<mapsto>
        \<lparr>Client.ID = ''A_5'', LastSeen = 100, JoinedAt = 110, Original = ''A_5''\<rparr>)"
  by (simp add: clashCalls_def serveAll_snoc clients_Join assignName_free crowd_A_5_free
      crowd_nextID)

lemma clash_nextID: "nextID (serveAll clashCalls) = 102"
proof -
  have "length (logs (serveAll clashCalls)) = 101"
    by (simp add: clashCalls_def serveAll_snoc length_logs_Join crowdCalls_def crowd_length)
  then show ?thesis by (simp add: nextID_serveAll)
qed

lemma clash_assignName:
  "assignName (serveAll clashCalls) ''A'' now = ''A_'' @ itoa (now smod 9999)"
proof -
  have "clients (serveAll clashCalls) ''A'' \<noteq> None"
    using crowd_base by (simp add: clash_clients)
  moreover have "\<forall>j. 1 \<le> j \<and> j \<le> 99 \<longrightarrow> clients (serveAll clashCalls) (''A'' @ itoa j) \<noteq> None"
    using crowd_taken by (simp add: clash_clients)
  ultimately show ?thesis
    using assignName_fallback [of "''A''" "serveAll clashCalls" now] by simp
qed

lemma clash_card: "card (dom (clients (serveAll clashCalls))) = 101"
proof -
  let ?f = "\<lambda>n. ''A'' @ itoa (int n)"
  have inj: "inj_on ?f {1..<100}"
    by (rule inj_onI) (rule suffix_inj)
  then have c: "card (?f ` {1..<100}) = 99" by (simp add: card_image)
  have a: "''A'' \<notin> ?f ` {1..<100}"
    by (auto simp: itoa_nat utoa_not_Nil utoa_not_Nil [symmetric])
  have u: "''A_5'' \<notin> insert ''A'' (?f ` {1..<100})"
    using underscore_not_suffix by auto
  have "dom (clients (serveAll clashCalls)) = insert ''A_5'' (insert ''A'' (?f ` {1..<100}))"
    by (simp add: clash_clients crowd_dom_100)
  moreover have "card (insert ''A_5'' (insert ''A'' (?f ` {1..<100}))) = 101"
  proof -
    have fin: "finite (?f ` {1..<100})" by simp
    with a c have "card (insert ''A'' (?f ` {1..<100})) = 100"
      by (subst card_insert_disjoint) simp_all
    moreover from fin have "finite (insert ''A'' (?f ` {1..<100}))" by simp
    ultimately show ?thesis using u by (subst card_insert_disjoint) simp_all
  qed
  ultimately show ?thesis by simp
qed

subsection \<open>The allocated name\<close>

text \<open>
  Claim C7 says that the allocated name is determined by the registry: the base when it
  is free, and otherwise the first free candidate among the base with the suffixes 1 to
  99. When the base and all ninety-nine candidates are keys of the registry, as after a
  hundred joins under the name \<open>A\<close>, the loop runs to its end and the name is made from
  the clock: two readings give two names, neither of them one of the candidates.
\<close>

theorem assignName_clock_counterexample:
  "clients (serveAll crowdCalls) ''A'' \<noteq> None \<and>
   assignName (serveAll crowdCalls) ''A'' 5 = ''A_5'' \<and>
   assignName (serveAll crowdCalls) ''A'' 6 = ''A_6'' \<and>
   assignName (serveAll crowdCalls) ''A'' 5 \<noteq> assignName (serveAll crowdCalls) ''A'' 6"
  by (simp add: crowd_base crowd_assignName signed_modulo_int_def itoa_5 itoa_6)

text \<open>
  Claim C7, amended. The empty name is treated as \<open>Guest\<close>. A base that is not a key of
  the registry is returned unchanged. When the base is a key and a candidate among the
  base with the suffixes 1 to 99 is free, the first free one, in increasing order, is
  returned. In these cases the name does not depend on the clock. When the base and all
  ninety-nine candidates are keys, the name is the base, an underscore and the clock's
  nanoseconds modulo 9999. From an empty room, three joins under the name \<open>Alice\<close> are
  assigned \<open>Alice\<close>, \<open>Alice1\<close> and \<open>Alice2\<close>, whatever the clock reads.
\<close>

theorem assignName_cases:
  "assignName cr [] now = assignName cr ''Guest'' now \<and>
   (requested \<noteq> [] \<and> clients cr requested = None \<longrightarrow>
      assignName cr requested now = requested) \<and>
   (requested \<noteq> [] \<and> clients cr requested \<noteq> None \<and> 1 \<le> i \<and> i \<le> 99 \<and>
    clients cr (requested @ itoa i) = None \<and>
    (\<forall>j. 1 \<le> j \<and> j < i \<longrightarrow> clients cr (requested @ itoa j) \<noteq> None) \<longrightarrow>
      assignName cr requested now = requested @ itoa i) \<and>
   (requested \<noteq> [] \<and>
    (clients cr requested = None \<or>
     (\<exists>i. 1 \<le> i \<and> i \<le> 99 \<and> clients cr (requested @ itoa i) = None)) \<longrightarrow>
      assignName cr requested now = assignName cr requested now') \<and>
   (requested \<noteq> [] \<and> clients cr requested \<noteq> None \<and>
    (\<forall>j. 1 \<le> j \<and> j \<le> 99 \<longrightarrow> clients cr (requested @ itoa j) \<noteq> None) \<longrightarrow>
      assignName cr requested now = requested @ ''_'' @ itoa (now smod 9999)) \<and>
   AssignedName (fst (snd (Join NewChatRoom \<lparr>RequestedName = ''Alice''\<rparr> zeroJoinReply n1 j1 s1))) =
     ''Alice'' \<and>
   AssignedName (fst (snd (Join (serveAll [CallJoin \<lparr>RequestedName = ''Alice''\<rparr> n1 j1 s1])
      \<lparr>RequestedName = ''Alice''\<rparr> zeroJoinReply n2 j2 s2))) = ''Alice1'' \<and>
   AssignedName (fst (snd (Join (serveAll [CallJoin \<lparr>RequestedName = ''Alice''\<rparr> n1 j1 s1,
                                          CallJoin \<lparr>RequestedName = ''Alice''\<rparr> n2 j2 s2])
      \<lparr>RequestedName = ''Alice''\<rparr> zeroJoinReply n3 j3 s3))) = ''Alice2''"
proof -
  have "AssignedName (fst (snd (Join NewChatRoom \<lparr>RequestedName = ''Alice''\<rparr> zeroJoinReply n1 j1 s1))) =
     ''Alice''"
    by (simp add: run_defs)
  moreover have "AssignedName (fst (snd (Join (serveAll [CallJoin \<lparr>RequestedName = ''Alice''\<rparr> n1 j1 s1])
      \<lparr>RequestedName = ''Alice''\<rparr> zeroJoinReply n2 j2 s2))) = ''Alice1''"
    by (simp add: run_defs)
  moreover have "AssignedName (fst (snd (Join (serveAll [CallJoin \<lparr>RequestedName = ''Alice''\<rparr> n1 j1 s1,
                                          CallJoin \<lparr>RequestedName = ''Alice''\<rparr> n2 j2 s2])
      \<lparr>RequestedName = ''Alice''\<rparr> zeroJoinReply n3 j3 s3))) = ''Alice2''"
    by (simp add: run_defs)
  moreover have "requested \<noteq> [] \<and>
    (clients cr requested = None \<or>
     (\<exists>i. 1 \<le> i \<and> i \<le> 99 \<and> clients cr (requested @ itoa i) = None)) \<longrightarrow>
      assignName cr requested now = assignName cr requested now'"
    using assignName_clock_free [of cr requested now now'] by blast
  moreover have "requested \<noteq> [] \<and> clients cr requested \<noteq> None \<and> 1 \<le> i \<and> i \<le> 99 \<and>
    clients cr (requested @ itoa i) = None \<and>
    (\<forall>j. 1 \<le> j \<and> j < i \<longrightarrow> clients cr (requested @ itoa j) \<noteq> None) \<longrightarrow>
      assignName cr requested now = requested @ itoa i"
    using assignName_suffixed [of requested cr i now] by blast
  moreover have "requested \<noteq> [] \<and> clients cr requested \<noteq> None \<and>
    (\<forall>j. 1 \<le> j \<and> j \<le> 99 \<longrightarrow> clients cr (requested @ itoa j) \<noteq> None) \<longrightarrow>
      assignName cr requested now = requested @ ''_'' @ itoa (now smod 9999)"
    using assignName_fallback [of requested cr now] by blast
  ultimately show ?thesis
    using assignName_empty [of cr now] assignName_free [of requested cr now] by blast
qed

text \<open>
  After the run \<open>soloCalls\<close> the name \<open>B\<close> is free and \<open>A\<close> is taken while \<open>A1\<close> is
  free; after the run \<open>crowdCalls\<close> the base \<open>A\<close> and all its candidates are taken.
\<close>

theorem assignName_cases_witness:
  "clients (serveAll soloCalls) ''B'' = None \<and>
   assignName (serveAll soloCalls) ''B'' 7 = ''B'' \<and>
   clients (serveAll soloCalls) ''A'' \<noteq> None \<and>
   clients (serveAll soloCalls) ''A1'' = None \<and>
   assignName (serveAll soloCalls) ''A'' 7 = ''A1'' \<and>
   assignName (serveAll soloCalls) ''A'' 7 = assignName (serveAll soloCalls) ''A'' 8 \<and>
   clients (serveAll crowdCalls) ''A'' \<noteq> None \<and>
   assignName (serveAll crowdCalls) ''A'' 5 = ''A_5''"
proof -
  have none_below: "\<forall>j::int. 1 \<le> j \<and> j < 1 \<longrightarrow> clients (serveAll soloCalls) (''A'' @ itoa j) \<noteq> None"
    by arith
  have a1: "clients (serveAll soloCalls) (''A'' @ itoa 1) = None"
    by (simp add: itoa_1 solo_free)
  note at_B = assignName_cases [where cr = "serveAll soloCalls" and requested = "''B''"
      and now = 7 and now' = 8 and i = 1]
  note at_A = assignName_cases [where cr = "serveAll soloCalls" and requested = "''A''"
      and now = 7 and now' = 8 and i = 1]
  note at_crowd = assignName_cases [where cr = "serveAll crowdCalls" and requested = "''A''"
      and now = 5 and now' = 8 and i = 1]
  from at_B solo_free(1)
  have b: "assignName (serveAll soloCalls) ''B'' 7 = ''B''" by simp
  from at_A solo_clients a1 none_below
  have a: "assignName (serveAll soloCalls) ''A'' 7 = ''A'' @ itoa 1" by simp
  have "\<exists>i::int. 1 \<le> i \<and> i \<le> 99 \<and> clients (serveAll soloCalls) (''A'' @ itoa i) = None"
    using a1 by (intro exI [of _ 1]) simp
  with at_A
  have c: "assignName (serveAll soloCalls) ''A'' 7 = assignName (serveAll soloCalls) ''A'' 8"
    by simp
  from at_crowd crowd_base crowd_taken
  have f: "assignName (serveAll crowdCalls) ''A'' 5 = ''A'' @ ''_'' @ itoa (5 smod 9999)"
    by simp
  from a b c f show ?thesis
    by (simp add: solo_free solo_clients crowd_base itoa_1 itoa_5 signed_modulo_int_def)
qed

subsection \<open>A join that adds no client\<close>

text \<open>
  Claim C6 says that every \<^verbatim>\<open>Join\<close> inserts a new client and makes the registry one
  larger. \<^verbatim>\<open>assignName\<close> does not look its last resort up in the registry. After the
  run \<open>clashCalls\<close> the registry holds 101 clients, \<open>A_5\<close> among them; a join under the
  name \<open>A\<close> at a clock reading that is 5 modulo 9999 is assigned \<open>A_5\<close>, reports
  success, appends its notice to the log, and replaces the client stored under \<open>A_5\<close>:
  the registry still holds 101 clients.
\<close>

theorem Join_fallback_collision:
  "clients (serveAll clashCalls) ''A_5'' =
     Some \<lparr>Client.ID = ''A_5'', LastSeen = 100, JoinedAt = 110, Original = ''A_5''\<rparr> \<and>
   card (dom (clients (serveAll clashCalls))) = 101 \<and>
   snd (Join (serveAll clashCalls) \<lparr>RequestedName = ''A''\<rparr> zeroJoinReply
          1761855000000007973 120 121) =
     (\<lparr>JoinReply.Success = True, AssignedName = ''A_5'',
       JoinReply.Message = ''Welcome! You are now A_5''\<rparr>, None) \<and>
   clients (fst (Join (serveAll clashCalls) \<lparr>RequestedName = ''A''\<rparr> zeroJoinReply
          1761855000000007973 120 121)) ''A_5'' =
     Some \<lparr>Client.ID = ''A_5'', LastSeen = 101, JoinedAt = 120, Original = ''A''\<rparr> \<and>
   dom (clients (fst (Join (serveAll clashCalls) \<lparr>RequestedName = ''A''\<rparr> zeroJoinReply
          1761855000000007973 120 121))) = dom (clients (serveAll clashCalls)) \<and>
   card (dom (clients (fst (Join (serveAll clashCalls) \<lparr>RequestedName = ''A''\<rparr> zeroJoinReply
          1761855000000007973 120 121)))) = 101 \<and>
   length (logs (fst (Join (serveAll clashCalls) \<lparr>RequestedName = ''A''\<rparr> zeroJoinReply
          1761855000000007973 120 121))) = Suc (length (logs (serveAll clashCalls)))"
proof -
  let ?now = "1761855000000007973 :: int"
  let ?j = "Join (serveAll clashCalls) \<lparr>RequestedName = ''A''\<rparr> zeroJoinReply ?now 120 121"
  have n: "assignName (serveAll clashCalls) ''A'' ?now = ''A_5''"
    by (simp add: clash_assignName signed_modulo_int_def itoa_5)
  have before: "clients (serveAll clashCalls) ''A_5'' =
     Some \<lparr>Client.ID = ''A_5'', LastSeen = 100, JoinedAt = 110, Original = ''A_5''\<rparr>"
    by (simp add: clash_clients)
  have reply: "snd ?j =
     (\<lparr>JoinReply.Success = True, AssignedName = ''A_5'',
       JoinReply.Message = ''Welcome! You are now A_5''\<rparr>, None)"
    by (simp add: Join_def Let_def n zeroJoinReply_def)
  have cl: "clients (fst ?j) =
     (clients (serveAll clashCalls))(''A_5'' \<mapsto>
        \<lparr>Client.ID = ''A_5'', LastSeen = 101, JoinedAt = 120, Original = ''A''\<rparr>)"
    by (simp add: clients_Join n clash_nextID)
  have after: "clients (fst ?j) ''A_5'' =
     Some \<lparr>Client.ID = ''A_5'', LastSeen = 101, JoinedAt = 120, Original = ''A''\<rparr>"
    by (simp add: cl)
  have "''A_5'' \<in> dom (clients (serveAll clashCalls))"
    using before by (simp add: domIff)
  then have d: "dom (clients (fst ?j)) = dom (clients (serveAll clashCalls))"
    by (simp add: cl insert_absorb)
  from before reply after d clash_card show ?thesis
    by (simp add: length_logs_Join)
qed

end
